theory Spec2Isabelle
  imports Complex_Main
begin

section \<open>Python strings\<close>

text \<open>
  A Python \<open>str\<close> is modelled as a \<open>string\<close>; a \<open>char\<close> stands for the code point of
  the same number, so the model covers the strings whose code points are below 256.
  \<open>isspace\<close> is the test \<open>str.strip()\<close> uses, \<open>lower_char\<close> is \<open>str.lower()\<close> on one
  character.
\<close>

definition newline :: char where
  "newline = CHR 0x0A"

definition isspace :: "char \<Rightarrow> bool" where
  "isspace c =
     (let n = (of_char c :: nat)
      in (9 \<le> n \<and> n \<le> 13) \<or> (28 \<le> n \<and> n \<le> 32) \<or> n = 133 \<or> n = 160)"

definition lower_char :: "char \<Rightarrow> char" where
  "lower_char c =
     (let n = (of_char c :: nat)
      in if (65 \<le> n \<and> n \<le> 90) \<or> (192 \<le> n \<and> n \<le> 222 \<and> n \<noteq> 215)
         then char_of (n + 32) else c)"

definition lower :: "string \<Rightarrow> string" where
  "lower s = map lower_char s"

definition lstrip :: "string \<Rightarrow> string" where
  "lstrip s = dropWhile isspace s"

definition rstrip :: "string \<Rightarrow> string" where
  "rstrip s = rev (dropWhile isspace (rev s))"

definition strip :: "string \<Rightarrow> string" where
  "strip s = rstrip (lstrip s)"

text \<open>\<open>s.split("\n")\<close>: the pieces between the newlines, the empty ones included.\<close>

fun split_nl :: "string \<Rightarrow> string list" where
  "split_nl [] = [[]]"
| "split_nl (c # cs) =
     (if c = newline then [] # split_nl cs
      else (case split_nl cs of [] \<Rightarrow> [[c]] | w # ws \<Rightarrow> (c # w) # ws))"

text \<open>\<open>"\n".join(ws)\<close>.\<close>

fun join_nl :: "string list \<Rightarrow> string" where
  "join_nl [] = []"
| "join_nl [w] = w"
| "join_nl (w # ws) = w @ newline # join_nl ws"

section \<open>The rounded button widget\<close>

text \<open>
  What the canvas holds after a repaint: the rounded polygon and the centred label.
  A font is the tuple of family, size and styles.
\<close>

type_synonym font = "string \<times> int \<times> string list"

datatype canvas_item =
    Polygon "int list" string bool
  | Text_item rat rat string font string

text \<open>
  \<open>self.after(ms, self.draw, *args)\<close> leaves a timer in the event loop: the delay and
  the colour argument \<open>draw\<close> will be called with (\<open>None\<close> when no argument is given).
\<close>

datatype timer = Timer (delay: int) (draw_arg: "string option")

record 'c RoundedButton =
  radius :: int
  command :: "'c option"
  label_text :: string
  font :: font
  disabled :: bool
  fg :: string
  bg_color :: string
  hover_color :: string
  pressed_color :: string
  disabled_color :: string
  canvas_bg :: string
  winfo_width :: int
  winfo_height :: int
  items :: "canvas_item list"
  after_queue :: "timer list"

text \<open>
  \<open>RoundedButton.__init__\<close>. A Tk widget that is not laid out yet reports width and
  height 1; the geometry manager sets the real size later (\<open>layout\<close>).
\<close>

definition RoundedButton_init ::
  "string \<Rightarrow> 'c option \<Rightarrow> font \<Rightarrow> int \<Rightarrow> 'c RoundedButton" where
  "RoundedButton_init txt cmd fnt r =
     \<lparr>radius = r, command = cmd, label_text = txt, font = fnt, disabled = False,
      fg = ''white'', bg_color = ''#4CAF50'', hover_color = ''#5a9a5d'',
      pressed_color = ''#3e8e41'', disabled_color = ''#a0a0a0'', canvas_bg = [],
      winfo_width = 1, winfo_height = 1, items = [], after_queue = []\<rparr>"

definition layout :: "int \<Rightarrow> int \<Rightarrow> 'c RoundedButton \<Rightarrow> 'c RoundedButton" where
  "layout w h b = b\<lparr>winfo_width := w, winfo_height := h\<rparr>"

definition points :: "int \<Rightarrow> int \<Rightarrow> int \<Rightarrow> int list" where
  "points x2 y2 r =
     (let x1 = 0; y1 = 0
      in [x1 + r, y1, x2 - r, y1, x2, y1, x2, y1 + r, x2, y2 - r, x2, y2,
          x2 - r, y2, x1 + r, y2, x1, y2, x1, y2 - r, x1, y1 + r, x1, y1])"

text \<open>
  \<open>current_color\<close> of \<open>draw\<close>: the disabled colour wins, then a truthy \<open>color\<close>
  argument (neither \<open>None\<close> nor the empty string), then the normal background.
\<close>

definition current_color :: "'c RoundedButton \<Rightarrow> string option \<Rightarrow> string" where
  "current_color b color =
     (if disabled b then disabled_color b
      else (case color of
              None \<Rightarrow> bg_color b
            | Some c \<Rightarrow> if c \<noteq> [] then c else bg_color b))"

definition draw :: "'c RoundedButton \<Rightarrow> string option \<Rightarrow> 'c RoundedButton" where
  "draw b color =
     (if winfo_width b \<le> 1 \<or> winfo_height b \<le> 1
      then b\<lparr>after_queue := after_queue b @ [Timer 10 None]\<rparr>
      else
        (let x2 = winfo_width b; y2 = winfo_height b
         in b\<lparr>items :=
                [Polygon (points x2 y2 (radius b)) (current_color b color) True,
                 Text_item (of_int x2 / 2) (of_int y2 / 2) (label_text b) (font b) (fg b)]\<rparr>))"

text \<open>The event loop runs the oldest timer: it calls \<open>draw\<close> with the stored argument.\<close>

definition fire_timer :: "'c RoundedButton \<Rightarrow> 'c RoundedButton" where
  "fire_timer b =
     (case after_queue b of
        [] \<Rightarrow> b
      | t # ts \<Rightarrow> draw (b\<lparr>after_queue := ts\<rparr>) (draw_arg t))"

text \<open>
  The four handlers. \<open>on_release\<close> also returns the command it calls (\<open>None\<close> when it
  calls none): the caller runs it after the repaint, as the source does.
\<close>

definition on_enter :: "'c RoundedButton \<Rightarrow> 'c RoundedButton" where
  "on_enter b = (if \<not> disabled b then draw b (Some (hover_color b)) else b)"

definition on_leave :: "'c RoundedButton \<Rightarrow> 'c RoundedButton" where
  "on_leave b = (if \<not> disabled b then draw b None else b)"

definition on_press :: "'c RoundedButton \<Rightarrow> 'c RoundedButton" where
  "on_press b = (if \<not> disabled b then draw b (Some (pressed_color b)) else b)"

definition on_release :: "'c RoundedButton \<Rightarrow> 'c RoundedButton \<times> 'c option" where
  "on_release b =
     (if \<not> disabled b then (draw b (Some (hover_color b)), command b) else (b, None))"

definition configure_colors ::
  "string \<Rightarrow> string \<Rightarrow> string \<Rightarrow> string \<Rightarrow> string \<Rightarrow> string \<Rightarrow>
   'c RoundedButton \<Rightarrow> 'c RoundedButton" where
  "configure_colors f bg hover pressed dis parent_bg b =
     draw (b\<lparr>fg := f, bg_color := bg, hover_color := hover, pressed_color := pressed,
             disabled_color := dis, canvas_bg := parent_bg\<rparr>) None"

definition disable :: "'c RoundedButton \<Rightarrow> 'c RoundedButton" where
  "disable b = draw (b\<lparr>disabled := True\<rparr>) None"

definition enable :: "'c RoundedButton \<Rightarrow> 'c RoundedButton" where
  "enable b = draw (b\<lparr>disabled := False\<rparr>) None"

text \<open>
  What can happen to one button: the four pointer events Tk delivers to it and the two
  calls the application makes on it. \<open>run_events\<close> feeds a sequence to the button and
  collects the commands called, oldest first.
\<close>

datatype button_event = Enter | Leave | Press | Release | Call_disable | Call_enable

fun handle_event :: "'c RoundedButton \<Rightarrow> button_event \<Rightarrow> 'c RoundedButton \<times> 'c option" where
  "handle_event b Enter = (on_enter b, None)"
| "handle_event b Leave = (on_leave b, None)"
| "handle_event b Press = (on_press b, None)"
| "handle_event b Release = on_release b"
| "handle_event b Call_disable = (disable b, None)"
| "handle_event b Call_enable = (enable b, None)"

fun run_events :: "'c RoundedButton \<Rightarrow> button_event list \<Rightarrow> 'c RoundedButton \<times> 'c list" where
  "run_events b [] = (b, [])"
| "run_events b (e # es) =
     (case handle_event b e of
        (b', fired) \<Rightarrow>
          (case run_events b' es of
             (b'', cs) \<Rightarrow> (b'', (case fired of None \<Rightarrow> cs | Some c \<Rightarrow> c # cs))))"

text \<open>
  The number of press events of a sequence that reach the button while it is enabled:
  the presses a push button that tracks its pressed state would arm itself on.
\<close>

fun enabled_presses :: "'c RoundedButton \<Rightarrow> button_event list \<Rightarrow> nat" where
  "enabled_presses b [] = 0"
| "enabled_presses b (e # es) =
     (if e = Press \<and> \<not> disabled b then 1 else 0) + enabled_presses (fst (handle_event b e)) es"

section \<open>Exceptions, files and JSON values\<close>

text \<open>
  An exception is its class and the text \<open>str(e)\<close> gives. Every class listed derives
  from \<open>Exception\<close>, so \<open>except Exception\<close> catches each of them; a clause naming
  classes catches the exceptions of those classes.
\<close>

datatype exc_class =
    FileNotFoundError | PermissionError | IsADirectoryError | UnicodeDecodeError
  | JSONDecodeError | AttributeError | ValueError | OSError | RuntimeError

datatype py_exception = PyExc (exc_class: exc_class) (str: string)

text \<open>
  The state of one path of the file system as a read sees it: no file, a file the
  read fails on (with the exception it raises), or a file with its text.
  \<open>open_read\<close> is \<open>open(path, 'r')\<close> followed by \<open>read()\<close>.
\<close>

datatype file_state = Missing | Unreadable py_exception | Contents string

definition open_read :: "(string \<Rightarrow> file_state) \<Rightarrow> string \<Rightarrow> py_exception + string" where
  "open_read fs path =
     (case fs path of
        Missing \<Rightarrow>
          Inl (PyExc FileNotFoundError
                 (''[Errno 2] No such file or directory: '' @ [CHR 0x27] @ path @ [CHR 0x27]))
      | Unreadable e \<Rightarrow> Inl e
      | Contents t \<Rightarrow> Inr t)"

text \<open>
  The values \<open>json.load\<close> returns. A JSON object is a Python dict, kept as an
  association list with \<open>map_of\<close> as lookup.
\<close>

datatype json =
    JNull | JBool bool | JNumber int | JString string
  | JArray "json list" | JObject "(string \<times> json) list"

text \<open>\<open>settings.get(key, default)\<close>: only a dict has the method.\<close>

fun dict_get :: "json \<Rightarrow> string \<Rightarrow> json \<Rightarrow> py_exception + json" where
  "dict_get (JObject kvs) k d = Inr (case map_of kvs k of None \<Rightarrow> d | Some v \<Rightarrow> v)"
| "dict_get v k d = Inl (PyExc AttributeError ''object has no attribute get'')"

section \<open>The settings store\<close>

text \<open>
  \<open>json.load\<close> and \<open>json.dump\<close> belong to the standard library and are parameters:
  \<open>json_loads\<close> parses the text of the file (raising \<open>JSONDecodeError\<close> on text that
  is not JSON), \<open>json_dumps\<close> prints a value. \<open>settings_path\<close> is the file
  \<open>.wordcloud_app_settings.json\<close> of the user's home directory.
\<close>

definition load_settings ::
  "(string \<Rightarrow> py_exception + json) \<Rightarrow> (string \<Rightarrow> file_state) \<Rightarrow> string
   \<Rightarrow> py_exception + json" where
  "load_settings json_loads fs settings_path =
     (case (case open_read fs settings_path of Inl e \<Rightarrow> Inl e | Inr t \<Rightarrow> json_loads t) of
        Inl e \<Rightarrow>
          if exc_class e = FileNotFoundError \<or> exc_class e = JSONDecodeError
          then Inr (JObject []) else Inl e
      | Inr v \<Rightarrow> Inr v)"

definition default_exclusion_words :: "string list" where
  "default_exclusion_words =
     [''author'', ''post'', ''content'', ''reddit'', ''score'', ''url'', ''subreddit'',
      ''title'', ''Steam'', ''Comment'', ''https'', ''Comments'', ''u'', ''account'',
      ''comments'', ''csgomarketforum'', ''SteamScams'', ''scam'', ''trade'', ''support'',
      ''png'', ''game'', ''csgo'', ''redd'', ''got'', ''skin'', ''item'', ''S'',
      ''will'', ''items'', ''one'', ''someone'', ''know'', ''scammed'', ''guy'', ''people'']"

text \<open>
  The part of \<open>WordCloudApp.__init__\<close> that loads the settings: the pair of
  \<open>initial_exclusion_list\<close> and \<open>is_dark_mode\<close>.
\<close>

definition init_settings ::
  "(string \<Rightarrow> py_exception + json) \<Rightarrow> (string \<Rightarrow> file_state) \<Rightarrow> string
   \<Rightarrow> py_exception + (json \<times> json)" where
  "init_settings json_loads fs settings_path =
     (case load_settings json_loads fs settings_path of
        Inl e \<Rightarrow> Inl e
      | Inr settings \<Rightarrow>
          (case dict_get settings ''exclusion_list'' (JString (join_nl default_exclusion_words)) of
             Inl e \<Rightarrow> Inl e
           | Inr initial_exclusion_list \<Rightarrow>
               (case dict_get settings ''dark_mode'' (JBool False) of
                  Inl e \<Rightarrow> Inl e
                | Inr is_dark_mode \<Rightarrow> Inr (initial_exclusion_list, is_dark_mode))))"

section \<open>The main window\<close>

datatype command =
    Select_input_file | Set_output_file | Import_exclusion_list
  | Clear_exclusion_list | Start_generation_thread

datatype messagebox = Showinfo string string | Showerror string string

text \<open>The dict \<open>_threaded_generate\<close> hands to \<open>on_generation_complete\<close>.\<close>

datatype result = Success string | Error string

text \<open>
  The state the window owns. \<open>exclusion_text\<close> is the text of the Tk text widget
  without the newline Tk keeps at its end, so \<open>get("1.0", END)\<close> is that text and a
  newline, and \<open>insert(END, t)\<close> appends \<open>t\<close> to it. \<open>threads\<close> counts the worker
  threads started and not run yet, \<open>after_calls\<close> holds the results scheduled for
  \<open>on_generation_complete\<close>.
\<close>

record WordCloudApp =
  input_file_path :: string
  output_file_path :: string
  input_path_label :: string
  output_path_label :: string
  exclusion_text :: string
  dark_mode_switch :: bool
  status_label :: string
  input_button :: "command RoundedButton"
  output_button :: "command RoundedButton"
  import_button :: "command RoundedButton"
  clear_button :: "command RoundedButton"
  generate_button :: "command RoundedButton"
  messageboxes :: "messagebox list"
  threads :: nat
  after_calls :: "result list"

definition font_style :: font where
  "font_style = (''Segoe UI'', 10, [])"

definition font_style_bold :: font where
  "font_style_bold = (''Segoe UI'', 11, [''bold''])"

text \<open>\<open>create_widgets\<close>, for the widgets that carry state.\<close>

definition create_widgets :: "string \<Rightarrow> WordCloudApp" where
  "create_widgets initial_exclusion_list =
     \<lparr>input_file_path = [], output_file_path = [],
      input_path_label = ''No input file selected.'',
      output_path_label = ''No output path set.'',
      exclusion_text = initial_exclusion_list,
      dark_mode_switch = False,
      status_label = ''Ready'',
      input_button =
        RoundedButton_init ''Select Input .txt File'' (Some Select_input_file) font_style_bold 10,
      output_button =
        RoundedButton_init ''Set Output Image Path'' (Some Set_output_file) font_style_bold 10,
      import_button = RoundedButton_init ''Import'' (Some Import_exclusion_list) font_style 5,
      clear_button = RoundedButton_init ''Clear'' (Some Clear_exclusion_list) font_style 5,
      generate_button =
        disable (RoundedButton_init ''3. Generate Word Cloud'' (Some Start_generation_thread)
                   font_style_bold 10),
      messageboxes = [], threads = 0, after_calls = []\<rparr>"

definition update_generate_button_state :: "WordCloudApp \<Rightarrow> WordCloudApp" where
  "update_generate_button_state s =
     (if input_file_path s \<noteq> [] \<and> output_file_path s \<noteq> []
      then s\<lparr>generate_button := enable (generate_button s)\<rparr>
      else s\<lparr>generate_button := disable (generate_button s)\<rparr>)"

text \<open>
  \<open>select_input_file\<close> and \<open>set_output_file\<close>; \<open>path\<close> is what the file dialog
  returned, empty when the user cancelled.
\<close>

definition select_input_file :: "string \<Rightarrow> WordCloudApp \<Rightarrow> WordCloudApp" where
  "select_input_file path s =
     (if path \<noteq> []
      then update_generate_button_state
             (s\<lparr>input_file_path := path, input_path_label := ''Input: '' @ path\<rparr>)
      else s)"

definition set_output_file :: "string \<Rightarrow> WordCloudApp \<Rightarrow> WordCloudApp" where
  "set_output_file path s =
     (if path \<noteq> []
      then update_generate_button_state
             (s\<lparr>output_file_path := path, output_path_label := ''Output: '' @ path\<rparr>)
      else s)"

definition text_get :: "WordCloudApp \<Rightarrow> string" where
  "text_get s = exclusion_text s @ [newline]"

definition text_insert_end :: "string \<Rightarrow> WordCloudApp \<Rightarrow> WordCloudApp" where
  "text_insert_end t s = s\<lparr>exclusion_text := exclusion_text s @ t\<rparr>"

text \<open>
  \<open>import_exclusion_list\<close>: \<open>path\<close> is the dialog's answer, \<open>fs\<close> the file system.
  Every failure inside the \<open>try\<close> ends in the error dialog.
\<close>

definition import_exclusion_list ::
  "string \<Rightarrow> (string \<Rightarrow> file_state) \<Rightarrow> WordCloudApp \<Rightarrow> WordCloudApp" where
  "import_exclusion_list path fs s =
     (if path = [] then s
      else
        (case open_read fs path of
           Inl e \<Rightarrow>
             s\<lparr>messageboxes := messageboxes s @
                  [Showerror ''Error'' (''Failed to import file: '' @ str e)]\<rparr>
         | Inr new_words \<Rightarrow>
             (let current_text = strip (text_get s);
                  s' = (if current_text \<noteq> []
                        then text_insert_end (newline # new_words) s
                        else text_insert_end new_words s)
              in s'\<lparr>messageboxes := messageboxes s' @
                     [Showinfo ''Success'' ''Exclusion list imported successfully.'']\<rparr>)))"

definition clear_exclusion_list :: "WordCloudApp \<Rightarrow> WordCloudApp" where
  "clear_exclusion_list s = s\<lparr>exclusion_text := []\<rparr>"

text \<open>
  \<open>_save_settings\<close>: the document written and the write itself. \<open>write_error\<close> is the
  exception \<open>open(settings_path, 'w')\<close> raises, if it raises one; nothing catches it.
\<close>

definition settings_document :: "WordCloudApp \<Rightarrow> json" where
  "settings_document s =
     JObject [(''dark_mode'', JBool (dark_mode_switch s)),
              (''exclusion_list'', JString (strip (text_get s)))]"

definition save_settings ::
  "(json \<Rightarrow> string) \<Rightarrow> py_exception option \<Rightarrow> string \<Rightarrow> WordCloudApp
   \<Rightarrow> (string \<Rightarrow> file_state) \<Rightarrow> py_exception + (string \<Rightarrow> file_state)" where
  "save_settings json_dumps write_error settings_path s fs =
     (case write_error of
        Some e \<Rightarrow> Inl e
      | None \<Rightarrow> Inr (fs(settings_path := Contents (json_dumps (settings_document s)))))"

section \<open>Generation\<close>

text \<open>The keyword arguments the \<open>WordCloud\<close> constructor is called with.\<close>

record wc_params =
  stopwords :: "string set"
  background_color :: string
  width :: int
  height :: int
  max_words :: int
  collocations :: bool

text \<open>
  The calls \<open>generate_word_cloud\<close> makes outside the program, in order: reading the
  input file, \<open>WordCloud(...).generate(text)\<close>, and the plotting calls that end in
  \<open>savefig\<close>. The environment gives the file system, the library's stopword set and
  the outcome of the two library calls.
\<close>

datatype 'img ext_call =
    Open_read string
  | WordCloud_generate wc_params string
  | Savefig string 'img

record 'img environment =
  fs :: "string \<Rightarrow> file_state"
  STOPWORDS :: "string set"
  render :: "wc_params \<Rightarrow> string \<Rightarrow> py_exception + 'img"
  savefig :: "string \<Rightarrow> 'img \<Rightarrow> py_exception option"

definition custom_exclusion_list :: "string \<Rightarrow> string list" where
  "custom_exclusion_list t =
     map (\<lambda>word. lower (strip word)) (filter (\<lambda>word. strip word \<noteq> []) (split_nl t))"

text \<open>The keyword arguments of the \<open>WordCloud\<close> call, the stopword set built first.\<close>

definition wordcloud_arguments :: "'img environment \<Rightarrow> WordCloudApp \<Rightarrow> wc_params" where
  "wordcloud_arguments env s =
     (let custom = custom_exclusion_list (text_get s);
          stopwords = STOPWORDS env \<union> set custom
      in \<lparr>stopwords = stopwords, background_color = ''white'', width = 1600, height = 800,
          max_words = 200, collocations = False\<rparr>)"

definition generate_word_cloud ::
  "'img environment \<Rightarrow> WordCloudApp \<Rightarrow> 'img ext_call list \<times> (py_exception + string)" where
  "generate_word_cloud env s =
     (let input_path = input_file_path s;
          output_path = output_file_path s
      in case open_read (fs env) input_path of
           Inl e \<Rightarrow> ([Open_read input_path], Inl e)
         | Inr t \<Rightarrow>
             (let params = wordcloud_arguments env s
              in case render env params t of
                   Inl e \<Rightarrow> ([Open_read input_path, WordCloud_generate params t], Inl e)
                 | Inr wordcloud \<Rightarrow>
                     (case savefig env output_path wordcloud of
                        Some e \<Rightarrow>
                          ([Open_read input_path, WordCloud_generate params t,
                            Savefig output_path wordcloud], Inl e)
                      | None \<Rightarrow>
                          ([Open_read input_path, WordCloud_generate params t,
                            Savefig output_path wordcloud], Inr output_path))))"

text \<open>
  \<open>start_generation_thread\<close> runs on the UI thread: it starts the thread with
  \<open>_threaded_generate\<close> as target and no argument. \<open>threaded_generate\<close> is the body
  of that thread: it returns the calls made and, when no exception leaves it, the
  window with the result scheduled for \<open>on_generation_complete\<close>.
\<close>

definition start_generation_thread :: "WordCloudApp \<Rightarrow> WordCloudApp" where
  "start_generation_thread s =
     s\<lparr>status_label := ''Status: Processing...'',
       generate_button := disable (generate_button s),
       threads := threads s + 1\<rparr>"

definition threaded_generate ::
  "'img environment \<Rightarrow> WordCloudApp \<Rightarrow> 'img ext_call list \<times> (py_exception + WordCloudApp)" where
  "threaded_generate env s =
     (case generate_word_cloud env s of
        (calls, outcome) \<Rightarrow>
          (let r = (case outcome of
                      Inr output_path \<Rightarrow> Success output_path
                    | Inl e \<Rightarrow> Error (str e))
           in (calls, Inr (s\<lparr>threads := threads s - 1, after_calls := after_calls s @ [r]\<rparr>))))"

definition on_generation_complete :: "result \<Rightarrow> WordCloudApp \<Rightarrow> WordCloudApp" where
  "on_generation_complete r s =
     update_generate_button_state
       (case r of
          Success path \<Rightarrow>
            s\<lparr>status_label := ''Status: Success! Saved to '' @ path,
              messageboxes := messageboxes s @
                [Showinfo ''Success'' (''Word cloud saved successfully to:'' @ [newline] @ path)]\<rparr>
        | Error message \<Rightarrow>
            s\<lparr>status_label := ''Status: Error - '' @ message,
              messageboxes := messageboxes s @
                [Showerror ''Error'' (''An unexpected error occurred: '' @ message)]\<rparr>)"

section \<open>Example inputs\<close>

text \<open>
  A button as the window creates it, before the geometry manager has placed it, and
  the same button placed at 100 by 40 pixels.
\<close>

definition unplaced_button :: "nat RoundedButton" where
  "unplaced_button = RoundedButton_init ''Go'' (Some 7) font_style 10"

definition example_button :: "nat RoundedButton" where
  "example_button = layout 100 40 unplaced_button"

text \<open>
  A file system with two input files and a word list, and a window in which both paths
  have been chosen.
\<close>

definition example_fs :: "string \<Rightarrow> file_state" where
  "example_fs p =
     (if p = ''a.txt'' then Contents ''cat cat dog''
      else if p = ''b.txt'' then Contents ''bird''
      else if p = ''words.txt'' then Contents ''cat''
      else Missing)"

definition example_app :: WordCloudApp where
  "example_app = set_output_file ''o.png'' (select_input_file ''a.txt'' (create_widgets ''Foo''))"

section \<open>Properties of the rounded button\<close>

lemma disabled_draw: "disabled (draw b color) = disabled b"
  by (simp add: draw_def Let_def)

lemma command_draw: "command (draw b color) = command b"
  by (simp add: draw_def Let_def)

lemma disabled_disable: "disabled (disable b)"
  by (simp add: disable_def disabled_draw)

lemma disabled_enable: "\<not> disabled (enable b)"
  by (simp add: enable_def disabled_draw)

lemma handle_event_disabled:
  "disabled b \<Longrightarrow> e \<noteq> Call_enable \<Longrightarrow> disabled (fst (handle_event b e))"
  by (cases e) (simp_all add: on_enter_def on_leave_def on_press_def on_release_def disabled_disable)

lemma handle_event_fired:
  "snd (handle_event b e) = (if e = Release \<and> \<not> disabled b then command b else None)"
  by (cases e) (simp_all add: on_release_def)

lemma run_events_disabled:
  "disabled b \<Longrightarrow> Call_enable \<notin> set es \<Longrightarrow> snd (run_events b es) = []"
proof (induction es arbitrary: b)
  case Nil
  then show ?case by simp
next
  case (Cons e es)
  from Cons.prems have d: "disabled (fst (handle_event b e))"
    by (auto intro: handle_event_disabled)
  from Cons.prems have n: "Call_enable \<notin> set es" by simp
  have f: "snd (handle_event b e) = None"
    using Cons.prems by (simp add: handle_event_fired)
  obtain b' fired where h: "handle_event b e = (b', fired)"
    by (cases "handle_event b e")
  obtain b'' cs where r: "run_events b' es = (b'', cs)"
    by (cases "run_events b' es")
  from Cons.IH [OF d n] f h r show ?case
    by simp
qed

lemma example_button_fields:
  "\<not> disabled example_button" "command example_button = Some 7"
  "winfo_width example_button = 100" "winfo_height example_button = 40"
  by (simp_all add: example_button_def unplaced_button_def layout_def RoundedButton_init_def)

text \<open>
  Claim C7, as the code has it. The callback is called by exactly one event: a release
  that reaches the button while it is enabled; the handler does not look at what came
  before, so no press is needed, and a press, an enter or a leave alone never calls it.
  After \<open>disable()\<close> no event of a sequence calls the callback as long as the sequence
  holds no \<open>enable()\<close>.
\<close>

theorem callback_fires_on_enabled_release:
  "snd (handle_event b e) = (if e = Release \<and> \<not> disabled b then command b else None) \<and>
   (Call_enable \<notin> set es \<longrightarrow> snd (run_events (disable b) es) = [])"
  by (simp add: handle_event_fired run_events_disabled disabled_disable)

theorem callback_fires_on_enabled_release_witness:
  "snd (handle_event example_button Release) = Some 7 \<and>
   Call_enable \<notin> set [Press, Release, Enter] \<and>
   snd (run_events (disable example_button) [Press, Release, Enter]) = []"
proof -
  have h: "Call_enable \<notin> set [Press, Release, Enter]" by simp
  from callback_fires_on_enabled_release [of example_button Release "[Press, Release, Enter]"] h
  show ?thesis by (simp add: example_button_fields)
qed

text \<open>
  Claim C7 as stated fails: the button is disabled, pressed, enabled again and then
  released. The press reached it while it was disabled and was ignored, yet the release
  calls the callback, so the callback fires with no press of an enabled button before it.
\<close>

theorem release_without_enabled_press_fires:
  "\<not> (snd (run_events example_button [Call_disable, Press, Call_enable, Release]) \<noteq> [] \<longrightarrow>
      0 < enabled_presses example_button [Call_disable, Press, Call_enable, Release])"
  by (simp add: example_button_def unplaced_button_def layout_def RoundedButton_init_def
      disable_def enable_def on_press_def on_release_def draw_def Let_def)

text \<open>
  Claim C10. A call \<open>draw(color)\<close> on a button whose width or height is at most 1 paints
  nothing and leaves one timer that calls \<open>draw\<close> with no colour argument. When that
  timer runs after the button has been placed, the polygon is filled with the disabled
  colour of a disabled button and the normal background colour otherwise: the colour
  the first call asked for is gone.
\<close>

theorem draw_before_layout_retries_without_color:
  assumes "winfo_width b \<le> 1 \<or> winfo_height b \<le> 1"
  shows "draw b color = b\<lparr>after_queue := after_queue b @ [Timer 10 None]\<rparr> \<and>
    (after_queue b = [] \<and> 1 < w \<and> 1 < h \<longrightarrow>
       items (fire_timer (layout w h (draw b color))) =
         [Polygon (points w h (radius b))
            (if disabled b then disabled_color b else bg_color b) True,
          Text_item (of_int w / 2) (of_int h / 2) (label_text b) (font b) (fg b)])"
  using assms by (auto simp add: draw_def fire_timer_def layout_def current_color_def Let_def)

theorem draw_before_layout_retries_without_color_witness:
  "(winfo_width unplaced_button \<le> 1 \<or> winfo_height unplaced_button \<le> 1) \<and>
   draw unplaced_button (Some (hover_color unplaced_button)) =
     unplaced_button\<lparr>after_queue := [Timer 10 None]\<rparr> \<and>
   items (fire_timer (layout 100 40 (draw unplaced_button (Some (hover_color unplaced_button))))) =
     [Polygon (points 100 40 10) ''#4CAF50'' True,
      Text_item 50 20 ''Go'' font_style ''white'']"
proof -
  have h: "winfo_width unplaced_button \<le> 1 \<or> winfo_height unplaced_button \<le> 1"
    by (simp add: unplaced_button_def RoundedButton_init_def)
  have q: "after_queue unplaced_button = []" "radius unplaced_button = 10"
    "\<not> disabled unplaced_button" "bg_color unplaced_button = ''#4CAF50''"
    "label_text unplaced_button = ''Go''" "font unplaced_button = font_style"
    "fg unplaced_button = ''white''"
    by (simp_all add: unplaced_button_def RoundedButton_init_def)
  note t = draw_before_layout_retries_without_color
             [OF h, of "Some (hover_color unplaced_button)" 100 40]
  from t [THEN conjunct1] have a: "draw unplaced_button (Some (hover_color unplaced_button)) =
      unplaced_button\<lparr>after_queue := [Timer 10 None]\<rparr>"
    by (simp add: q)
  from t [THEN conjunct2] have b:
    "items (fire_timer (layout 100 40 (draw unplaced_button (Some (hover_color unplaced_button))))) =
       [Polygon (points 100 40 10) ''#4CAF50'' True,
        Text_item 50 20 ''Go'' font_style ''white'']"
    by (simp add: q)
  from h a b show ?thesis by blast
qed

section \<open>Properties of the main window\<close>

lemma isspace_newline: "isspace newline"
  by (simp add: isspace_def newline_def)

lemma strip_empty_iff: "strip t = [] \<longleftrightarrow> (\<forall>c\<in>set t. isspace c)"
proof
  assume "strip t = []"
  then have a: "\<forall>c\<in>set (dropWhile isspace t). isspace c"
    by (simp add: strip_def rstrip_def lstrip_def)
  show "\<forall>c\<in>set t. isspace c"
  proof (cases "dropWhile isspace t")
    case Nil
    then show ?thesis by simp
  next
    case (Cons x xs)
    then have "\<not> isspace x" by (simp add: dropWhile_eq_Cons_conv)
    with a Cons show ?thesis by simp
  qed
next
  assume "\<forall>c\<in>set t. isspace c"
  then show "strip t = []"
    by (auto simp add: strip_def rstrip_def lstrip_def dest: set_dropWhileD)
qed

lemma strip_text_get_empty_iff:
  "strip (text_get s) = [] \<longleftrightarrow> (\<forall>c\<in>set (exclusion_text s). isspace c)"
  by (simp add: strip_empty_iff text_get_def isspace_newline)

lemma update_generate_button_state_paths:
  "input_file_path (update_generate_button_state s) = input_file_path s"
  "output_file_path (update_generate_button_state s) = output_file_path s"
  by (simp_all add: update_generate_button_state_def)

lemma update_generate_button_state_disabled:
  "disabled (generate_button (update_generate_button_state s)) =
   (input_file_path s = [] \<or> output_file_path s = [])"
  by (simp add: update_generate_button_state_def disabled_disable disabled_enable)

text \<open>
  Claim C1. After the enablement update the generate button is enabled exactly when the
  input path and the output path are both non-empty; applying the update again leaves
  the button's enabled state as it is; and each of the two actions that change a path
  (a non-empty answer of the file dialog) ends with the button enabled exactly when
  both paths are non-empty.
\<close>

theorem generate_enabled_iff_both_paths:
  "((\<not> disabled (generate_button (update_generate_button_state s))) =
      (input_file_path s \<noteq> [] \<and> output_file_path s \<noteq> [])) \<and>
   disabled (generate_button (update_generate_button_state (update_generate_button_state s))) =
     disabled (generate_button (update_generate_button_state s)) \<and>
   (p \<noteq> [] \<longrightarrow>
      input_file_path (select_input_file p s) = p \<and>
      ((\<not> disabled (generate_button (select_input_file p s))) =
         (input_file_path (select_input_file p s) \<noteq> [] \<and>
          output_file_path (select_input_file p s) \<noteq> []))) \<and>
   (p \<noteq> [] \<longrightarrow>
      output_file_path (set_output_file p s) = p \<and>
      ((\<not> disabled (generate_button (set_output_file p s))) =
         (input_file_path (set_output_file p s) \<noteq> [] \<and>
          output_file_path (set_output_file p s) \<noteq> [])))"
  by (simp add: update_generate_button_state_disabled update_generate_button_state_paths
      select_input_file_def set_output_file_def)

theorem generate_enabled_iff_both_paths_witness:
  "''a.txt'' \<noteq> [] \<and>
   disabled (generate_button (select_input_file ''a.txt'' (create_widgets ''Foo''))) \<and>
   \<not> disabled (generate_button (select_input_file ''a.txt''
        (set_output_file ''o.png'' (create_widgets ''Foo''))))"
proof -
  have h: "''a.txt'' \<noteq> []" by simp
  have o: "output_file_path (create_widgets ''Foo'') = []"
    "output_file_path (set_output_file ''o.png'' (create_widgets ''Foo'')) = ''o.png''"
    by (simp_all add: create_widgets_def set_output_file_def update_generate_button_state_paths)
  note t1 = generate_enabled_iff_both_paths [of "create_widgets ''Foo''" "''a.txt''"]
  note t2 = generate_enabled_iff_both_paths
              [of "set_output_file ''o.png'' (create_widgets ''Foo'')" "''a.txt''"]
  from t1 have a: "disabled (generate_button (select_input_file ''a.txt'' (create_widgets ''Foo'')))"
    by (simp add: select_input_file_def update_generate_button_state_paths o)
  from t2 have b: "\<not> disabled (generate_button (select_input_file ''a.txt''
        (set_output_file ''o.png'' (create_widgets ''Foo''))))"
    by (simp add: select_input_file_def update_generate_button_state_paths o)
  from h a b show ?thesis by blast
qed

text \<open>
  Claim C9. Importing an exclusion list (whatever the dialog and the file system
  answer) and clearing the exclusion list leave the input path, the output path and the
  whole generate button, its enabled state included, as they were.
\<close>

theorem exclusion_edits_keep_paths_and_generate_button:
  "input_file_path (import_exclusion_list path files s) = input_file_path s \<and>
   output_file_path (import_exclusion_list path files s) = output_file_path s \<and>
   generate_button (import_exclusion_list path files s) = generate_button s \<and>
   input_file_path (clear_exclusion_list s) = input_file_path s \<and>
   output_file_path (clear_exclusion_list s) = output_file_path s \<and>
   generate_button (clear_exclusion_list s) = generate_button s"
  by (simp add: import_exclusion_list_def clear_exclusion_list_def text_insert_end_def Let_def
      split: sum.splits)

theorem exclusion_edits_keep_paths_and_generate_button_witness:
  "input_file_path (import_exclusion_list ''words.txt'' example_fs example_app) = ''a.txt'' \<and>
   output_file_path (import_exclusion_list ''words.txt'' example_fs example_app) = ''o.png'' \<and>
   generate_button (import_exclusion_list ''words.txt'' example_fs example_app) =
     generate_button example_app \<and>
   generate_button (clear_exclusion_list example_app) = generate_button example_app"
proof -
  have p: "input_file_path example_app = ''a.txt''" "output_file_path example_app = ''o.png''"
    by (simp_all add: example_app_def set_output_file_def select_input_file_def
        update_generate_button_state_paths)
  from exclusion_edits_keep_paths_and_generate_button [of "''words.txt''" example_fs example_app] p
  show ?thesis by simp
qed

text \<open>
  Claim C6, as the code has it. Importing a file with content \<open>w\<close> appends to the
  exclusion text: \<open>w\<close> alone when the current text holds nothing but whitespace (so an
  empty text becomes exactly \<open>w\<close>), and one newline followed by \<open>w\<close> when the current
  text holds a character that is not whitespace.
\<close>

theorem import_appends_file_content:
  assumes "path \<noteq> []" and "files path = Contents w"
  shows "exclusion_text (import_exclusion_list path files s) =
           (if \<forall>c\<in>set (exclusion_text s). isspace c
            then exclusion_text s @ w
            else exclusion_text s @ newline # w) \<and>
         (exclusion_text s = [] \<longrightarrow> exclusion_text (import_exclusion_list path files s) = w)"
  using assms
  by (simp add: import_exclusion_list_def open_read_def text_insert_end_def Let_def
      strip_text_get_empty_iff)

theorem import_appends_file_content_witness:
  "''words.txt'' \<noteq> [] \<and> example_fs ''words.txt'' = Contents ''cat'' \<and>
   exclusion_text (import_exclusion_list ''words.txt'' example_fs (create_widgets ''Foo'')) =
     ''Foo'' @ newline # ''cat'' \<and>
   exclusion_text (import_exclusion_list ''words.txt'' example_fs (create_widgets [])) = ''cat''"
proof -
  have h: "''words.txt'' \<noteq> []" "example_fs ''words.txt'' = Contents ''cat''"
    by (simp_all add: example_fs_def)
  have e: "exclusion_text (create_widgets ''Foo'') = ''Foo''"
    "exclusion_text (create_widgets []) = []"
    by (simp_all add: create_widgets_def)
  have n: "\<not> isspace CHR ''F''"
    by (simp add: isspace_def)
  note t1 = import_appends_file_content
              [where path = "''words.txt''" and files = example_fs and w = "''cat''"
                 and s = "create_widgets ''Foo''", OF h]
  note t2 = import_appends_file_content
              [where path = "''words.txt''" and files = example_fs and w = "''cat''"
                 and s = "create_widgets []", OF h]
  from t1 [THEN conjunct1] have a:
    "exclusion_text (import_exclusion_list ''words.txt'' example_fs (create_widgets ''Foo'')) =
       ''Foo'' @ newline # ''cat''"
    by (simp add: e n)
  from t2 [THEN conjunct2] have b:
    "exclusion_text (import_exclusion_list ''words.txt'' example_fs (create_widgets [])) = ''cat''"
    by (simp add: e)
  from h a b show ?thesis by blast
qed

text \<open>
  Claim C6 as stated fails on a text that is not empty and holds only whitespace: with
  a single space in the text area the imported words follow the space directly, with
  no newline between.
\<close>

theorem whitespace_text_gets_no_newline:
  "\<not> (exclusion_text (create_widgets '' '') \<noteq> [] \<longrightarrow>
      exclusion_text (import_exclusion_list ''words.txt'' example_fs (create_widgets '' '')) =
        exclusion_text (create_widgets '' '') @ newline # ''cat'')"
  by (simp add: import_exclusion_list_def open_read_def text_insert_end_def Let_def
      strip_text_get_empty_iff example_fs_def create_widgets_def isspace_def newline_def)

end
